theory Spec2Isabelle
  imports Complex_Main "HOL-Library.Word"
begin

section \<open>Errors and logging\<close>

datatype error = Error string

section \<open>The readiness check: newHealthCheck (cmd/activator/main.go)\<close>

text \<open>
  The closure returned by \<open>newHealthCheck\<close> owns a \<open>sync.Once\<close> and writes to the
  logger; both are the state it threads.  Its two reads of the outside world are
  inputs: whether \<open>sigCtx.Done()\<close> is closed when the \<open>select\<close> runs, and what
  \<open>statSink.Status()\<close> returns.
\<close>

record hc_state =
  once_done :: bool
  hc_log :: "string list"

definition newHealthCheck :: "bool \<Rightarrow> error option \<Rightarrow> hc_state \<Rightarrow> error option \<times> hc_state" where
  "newHealthCheck sigCtx_done statSink_Status s =
     (if sigCtx_done then
        (Some (Error ''received SIGTERM from kubelet''),
         (if once_done s then s
          else s\<lparr>once_done := True, hc_log := hc_log s @ [''Signal context canceled'']\<rparr>))
      else
        (statSink_Status, s\<lparr>hc_log := hc_log s @ [''No signal yet.'']\<rparr>))"

section \<open>The per-request deadlines (the closure given to NewTimeoutHandler in main)\<close>

text \<open>
  \<open>time.Duration\<close> is an \<open>int64\<close> count of nanoseconds and the revision's timeout
  fields are \<open>*int64\<close> seconds, so the conversion
  \<open>time.Duration(*p) * time.Second\<close> is a 64-bit multiplication that wraps.
  A nil pointer is \<open>None\<close>; dereferencing it panics.
\<close>

type_synonym duration = "64 word"

definition Second :: duration where
  "Second = 1000000000"

record RevisionSpec =
  TimeoutSeconds :: "64 word option"
  ResponseStartTimeoutSeconds :: "64 word option"
  IdleTimeoutSeconds :: "64 word option"

record Revision =
  Spec :: RevisionSpec

text \<open>
  The closure reads three constants of package \<open>apiconfig\<close> (pkg/apis/config).  Their
  declarations are not part of the sources this theory is written from, so they are
  a parameter of the model.
\<close>

record apiconfig =
  DefaultRevisionTimeoutSeconds :: "64 word"
  DefaultRevisionResponseStartTimeoutSeconds :: "64 word"
  DefaultRevisionIdleTimeoutSeconds :: "64 word"

datatype panic = NilPointerDereference

text \<open>
  \<open>activatorhandler.RevisionFrom\<close> is a function of pkg/activator/handler, which is
  not part of the sources this theory is written from, so it is a parameter: applied
  to the request's context it returns a \<open>*Revision\<close>, nil or not, or panics.  Which
  contexts make it return nil is decided there; the closure takes its second branch
  exactly when the pointer returned is nil.
\<close>

definition timeoutFunc ::
  "apiconfig \<Rightarrow> ('c \<Rightarrow> panic + Revision option) \<Rightarrow> 'c \<Rightarrow>
     panic + (duration \<times> duration \<times> duration)" where
  "timeoutFunc api RevisionFrom r_Context =
     (case RevisionFrom r_Context of
        Inl p \<Rightarrow> Inl p
      | Inr (Some rev') \<Rightarrow>
          (let responseStartTimeout =
                 (case ResponseStartTimeoutSeconds (Spec rev') of
                    None \<Rightarrow> 0 * Second
                  | Some v \<Rightarrow> v * Second);
               idleTimeout =
                 (case IdleTimeoutSeconds (Spec rev') of
                    None \<Rightarrow> 0 * Second
                  | Some v \<Rightarrow> v * Second)
           in (case TimeoutSeconds (Spec rev') of
                 None \<Rightarrow> Inl NilPointerDereference
               | Some t \<Rightarrow> Inr (t * Second, responseStartTimeout, idleTimeout)))
      | Inr None \<Rightarrow>
          Inr (DefaultRevisionTimeoutSeconds api * Second,
               DefaultRevisionResponseStartTimeoutSeconds api * Second,
               DefaultRevisionIdleTimeoutSeconds api * Second))"

section \<open>The header-pruning reverse proxy (pkg/http, NewHeaderPruningReverseProxy)\<close>

text \<open>
  \<open>http.Header\<close> is a \<open>map[string][]string\<close>.  Its methods \<open>Add\<close> and \<open>Del\<close>
  first canonicalise the key with \<open>textproto.CanonicalMIMEHeaderKey\<close> of Go's standard
  library: a key holding a byte that is not a token character is left as it is,
  otherwise the first letter and every letter after a hyphen is made upper case and
  every other letter lower case.  No proof below depends on what the canonical form is.
  \<open>httputil.ReverseProxy\<close> hands its director a request whose header map is
  allocated, so \<open>Add\<close> never meets a nil map.
\<close>

type_synonym Header = "string \<rightharpoonup> string list"

definition validHeaderFieldByte :: "char \<Rightarrow> bool" where
  "validHeaderFieldByte c =
     (let n = (of_char c :: nat) in
        (48 \<le> n \<and> n \<le> 57) \<or> (65 \<le> n \<and> n \<le> 90) \<or> (97 \<le> n \<and> n \<le> 122) \<or>
        n \<in> {33, 35, 36, 37, 38, 39, 42, 43, 45, 46, 94, 95, 96, 124, 126})"

fun canonicalMIMEHeaderKey :: "bool \<Rightarrow> string \<Rightarrow> string" where
  "canonicalMIMEHeaderKey upper [] = []"
| "canonicalMIMEHeaderKey upper (c # cs) =
     (let n = (of_char c :: nat);
          c' = (if upper \<and> 97 \<le> n \<and> n \<le> 122 then char_of (n - 32)
                else if \<not> upper \<and> 65 \<le> n \<and> n \<le> 90 then char_of (n + 32)
                else c)
      in c' # canonicalMIMEHeaderKey (c' = CHR ''-'') cs)"

definition CanonicalMIMEHeaderKey :: "string \<Rightarrow> string" where
  "CanonicalMIMEHeaderKey s =
     (if list_all validHeaderFieldByte s then canonicalMIMEHeaderKey True s else s)"

definition Header_Values :: "Header \<Rightarrow> string \<Rightarrow> string list" where
  "Header_Values h key = (case h key of None \<Rightarrow> [] | Some vs \<Rightarrow> vs)"

definition Header_Add :: "Header \<Rightarrow> string \<Rightarrow> string \<Rightarrow> Header" where
  "Header_Add h key v =
     (let k = CanonicalMIMEHeaderKey key in h(k \<mapsto> Header_Values h k @ [v]))"

definition Header_Del :: "Header \<Rightarrow> string \<Rightarrow> Header" where
  "Header_Del h key = h(CanonicalMIMEHeaderKey key := None)"

text \<open>
  The fields of \<open>http.Request\<close> that the director writes: \<open>req.URL.Scheme\<close>,
  \<open>req.URL.Host\<close>, \<open>req.Host\<close> and \<open>req.Header\<close>.
\<close>

record Request =
  URL_Scheme :: string
  URL_Host :: string
  Host :: string
  Header :: Header

record ReverseProxy =
  Director :: "Request \<Rightarrow> Request"

definition NoHostOverride :: string where
  "NoHostOverride = []"

text \<open>
  The header name \<open>netheader.PassthroughLoadbalancingKey\<close> is a constant of
  knative.dev/networking.
\<close>

definition PassthroughLoadbalancingKey :: string where
  "PassthroughLoadbalancingKey = ''K-Passthrough-Lb''"

definition NewHeaderPruningReverseProxy ::
  "string \<Rightarrow> string \<Rightarrow> string list \<Rightarrow> bool \<Rightarrow> ReverseProxy" where
  "NewHeaderPruningReverseProxy target hostOverride headersToRemove useHTTPS =
     \<lparr>Director = (\<lambda>req.
        let req = (if useHTTPS then req\<lparr>URL_Scheme := ''https''\<rparr>
                   else req\<lparr>URL_Scheme := ''http''\<rparr>);
            req = req\<lparr>URL_Host := target\<rparr>;
            req = (if hostOverride \<noteq> NoHostOverride
                   then req\<lparr>Host := hostOverride,
                            Header := Header_Add (Header req) PassthroughLoadbalancingKey ''true''\<rparr>
                   else req)
        in req\<lparr>Header := foldl Header_Del (Header req) headersToRemove\<rparr>)\<rparr>"

section \<open>The activator process (cmd/activator/main.go, main)\<close>

text \<open>
  \<open>main\<close> is straight-line code, so a run of it is the list of the effects it has, in
  program order.  What it reads from outside is the input: the environment
  (\<open>envconfig\<close>), the parsed network configuration, which of its fallible steps fail
  (each ends the process through \<open>log.Fatal\<close>), which case of the final \<open>select\<close>
  fires, if any, and the two orders in which Go ranges over the map \<open>servers\<close>.
  A transport is named by the order of its construction.  Of the logging, the lines
  the logger writes at level Info and Error are kept, each by its format string; a
  step that ends the process is the event \<open>Fatal\<close>.  A \<open>go\<close> statement is recorded
  where it stands: Go evaluates the arguments of the call there.  The calls that
  \<open>main\<close> defers (closing the stat sink and the stat channel, flushing metrics, traces
  and logs) run when it returns; none of them constructs a transport, sleeps or shuts
  an HTTP server down, and they are not events here.
\<close>

record config =
  PodName :: string
  PodIP :: string
  MaxIdleProxyConns :: int
  MaxIdleProxyConnsPerHost :: int

datatype MeshCompatibilityMode =
    MeshCompatibilityModeEnabled | MeshCompatibilityModeDisabled | MeshCompatibilityModeAuto

record netcfg =
  EnableMeshPodAddressability :: bool
  MeshCompatibilityMode :: MeshCompatibilityMode
  SystemInternalTLSEnabled :: bool

datatype step =
    ParseRESTConfig | ProcessEnv | CheckMinimumVersion | GetLoggingConfig
  | SetupObservability | StartInformers | FetchNetworkConfig | ConstructNetworkConfig
  | NewCertCache | NewRequestLogHandler | StartConfigMapWatcher

datatype wake = SigCtxDone | ErrCh string

datatype event =
    NewProxyAutoTransport nat int int
  | NewProxyAutoTLSTransport nat int int
  | ThrottlerRun nat bool MeshCompatibilityMode
  | ActivatorHandlerNew nat bool bool
  | ListenAndServe string
  | ListenAndServeTLS string
  | Info string
  | Errorw string
  | Sleep duration
  | Shutdown string
  | Fatal string

text \<open>
  \<open>cluster_drain_timeout\<close> stands for the configuration input of that name in the
  specification's table of inputs.  \<open>main\<close> has no read of it: the interval it sleeps
  is the package constant \<open>pkgnet.DefaultDrainTimeout\<close> (knative.dev/pkg/network), a
  parameter here.
\<close>

record inputs =
  env :: config
  networkConfig :: netcfg
  cluster_drain_timeout :: "duration option"
  failing :: "step set"
  woken :: "wake option"
  serve_order :: "string list"
  shutdown_order :: "string list"

definition servers :: "string list" where
  "servers = [''http1'', ''h2c'', ''profile'']"

definition map_range :: "string list \<Rightarrow> bool" where
  "map_range order \<longleftrightarrow> distinct order \<and> set order = set servers"

definition drain :: "duration \<Rightarrow> inputs \<Rightarrow> event list" where
  "drain DefaultDrainTimeout i =
     (case woken i of
        None \<Rightarrow> []
      | Some w \<Rightarrow>
          (case w of
             SigCtxDone \<Rightarrow> [Info ''Received SIGTERM'']
           | ErrCh e \<Rightarrow> [Errorw ''Failed to run HTTP server'']) @
          [Info ''Sleeping %v to allow K8s propagation of non-ready state'',
           Sleep DefaultDrainTimeout,
           Info ''Done waiting, shutting down servers.''] @
          map Shutdown (shutdown_order i) @
          [Info ''Servers shutdown.''])"

definition serve :: "duration \<Rightarrow> inputs \<Rightarrow> bool \<Rightarrow> event list" where
  "serve DefaultDrainTimeout i tlsEnabled =
     map ListenAndServe (serve_order i) @
     (if tlsEnabled then [ListenAndServeTLS ''https''] else []) @
     drain DefaultDrainTimeout i"

definition main :: "duration \<Rightarrow> inputs \<Rightarrow> event list" where
  "main DefaultDrainTimeout i =
     (if ParseRESTConfig \<in> failing i then [Fatal ''ParseAndGetRESTConfigOrDie'']
      else if ProcessEnv \<in> failing i then [Fatal ''Failed to process env: '']
      else if CheckMinimumVersion \<in> failing i
        then [Fatal ''Timed out attempting to get k8s version: '']
      else if GetLoggingConfig \<in> failing i
        then [Fatal ''Error loading/parsing logging configuration: '']
      else if SetupObservability \<in> failing i then [Fatal ''SetupObservabilityOrDie'']
      else if StartInformers \<in> failing i then [Fatal ''Failed to start informers'']
      else
        [Info ''Starting the knative activator'',
         NewProxyAutoTransport 0 (MaxIdleProxyConns (env i)) (MaxIdleProxyConnsPerHost (env i))] @
        (if FetchNetworkConfig \<in> failing i then [Fatal ''Failed to fetch network config'']
         else if ConstructNetworkConfig \<in> failing i
           then [Fatal ''Failed to construct network config'']
         else
           (let tlsEnabled = SystemInternalTLSEnabled (networkConfig i) in
            if tlsEnabled \<and> NewCertCache \<in> failing i
            then [Info ''Knative system-internal-tls is enabled'',
                  Fatal ''Failed to create certificate cache'']
            else
              (let transport = (if tlsEnabled then 1 else 0 :: nat) in
               (if tlsEnabled
                then [Info ''Knative system-internal-tls is enabled'',
                      NewProxyAutoTLSTransport 1 (MaxIdleProxyConns (env i))
                        (MaxIdleProxyConnsPerHost (env i))]
                else []) @
               [ThrottlerRun transport (EnableMeshPodAddressability (networkConfig i))
                  (MeshCompatibilityMode (networkConfig i)),
                Info ''Connecting to Autoscaler at '',
                ActivatorHandlerNew transport (EnableMeshPodAddressability (networkConfig i))
                  tlsEnabled] @
               (if NewRequestLogHandler \<in> failing i
                then [Fatal ''Unable to create request log handler'']
                else if StartConfigMapWatcher \<in> failing i
                  then [Fatal ''Failed to start configuration manager'']
                else serve DefaultDrainTimeout i tlsEnabled)))))"

text \<open>What a run did, read off its trace.\<close>

fun is_Sleep :: "event \<Rightarrow> bool" where
  "is_Sleep (Sleep d) = True"
| "is_Sleep e = False"

fun is_Shutdown :: "event \<Rightarrow> bool" where
  "is_Shutdown (Shutdown n) = True"
| "is_Shutdown e = False"

fun constructed :: "event list \<Rightarrow> nat list" where
  "constructed [] = []"
| "constructed (NewProxyAutoTransport t m n # es) = t # constructed es"
| "constructed (NewProxyAutoTLSTransport t m n # es) = t # constructed es"
| "constructed (e # es) = constructed es"

fun passed_to_Run :: "event list \<Rightarrow> nat list" where
  "passed_to_Run [] = []"
| "passed_to_Run (ThrottlerRun t a m # es) = t # passed_to_Run es"
| "passed_to_Run (e # es) = passed_to_Run es"

fun passed_to_New :: "event list \<Rightarrow> nat list" where
  "passed_to_New [] = []"
| "passed_to_New (ActivatorHandlerNew t a b # es) = t # passed_to_New es"
| "passed_to_New (e # es) = passed_to_New es"

fun shut_down :: "event list \<Rightarrow> string list" where
  "shut_down [] = []"
| "shut_down (Shutdown n # es) = n # shut_down es"
| "shut_down (e # es) = shut_down es"

fun listening :: "event list \<Rightarrow> string list" where
  "listening [] = []"
| "listening (ListenAndServe n # es) = n # listening es"
| "listening (ListenAndServeTLS n # es) = n # listening es"
| "listening (e # es) = listening es"

section \<open>The activator's config store (pkg/activator/config)\<close>

text \<open>
  A \<open>*Config\<close>, \<open>*Defaults\<close> or \<open>*Features\<close> is an address into a store of objects
  (\<open>None\<close> is nil), so that handing out a pointer and handing out a copy differ.
  An address is an index into the list of the objects of its type, and allocation
  appends.  The structs \<open>Defaults\<close> and \<open>Features\<close> of package \<open>apisconfig\<close> are
  declared in pkg/apis/config, which is not part of the sources this theory is written
  from: their values are the type parameters \<open>'d\<close> and \<open>'f\<close>.
\<close>

type_synonym addr = nat

record Config =
  Defaults :: "addr option"
  Features :: "addr option"

record ('d, 'f) heap =
  defaults_objs :: "'d list"
  features_objs :: "'f list"
  config_objs :: "Config list"

text \<open>
  A context, as far as this package reads and writes it: the value under the
  package's own key \<open>cfgKey{}\<close> (absent, or a \<open>*Config\<close>, which may be a nil pointer),
  and the \<open>apisconfig.Config{Defaults, Features}\<close> that \<open>apisconfig.ToContext\<close> attaches.
\<close>

record Context =
  cfgKey_value :: "addr option option"
  apisconfig_value :: "(addr option \<times> addr option) option"

definition FromContext :: "Context \<Rightarrow> addr option" where
  "FromContext ctx = (case cfgKey_value ctx of Some x \<Rightarrow> x | None \<Rightarrow> None)"

text \<open>
  \<open>apisconfig.NewDefaultsConfigFromMap(nil)\<close> and \<open>NewFeaturesConfigFromMap(nil)\<close> are
  functions of pkg/apis/config.  Each returns a pointer and an error; the caller drops
  the error.  The parameter \<open>built_in\<close> is the object the call builds, \<open>None\<close> when the
  call returns a nil pointer.
\<close>

definition NewDefaultsConfigFromMap ::
  "'d option \<Rightarrow> ('d, 'f) heap \<Rightarrow> addr option \<times> ('d, 'f) heap" where
  "NewDefaultsConfigFromMap built_in h =
     (case built_in of
        None \<Rightarrow> (None, h)
      | Some d \<Rightarrow> (Some (length (defaults_objs h)), h\<lparr>defaults_objs := defaults_objs h @ [d]\<rparr>))"

definition NewFeaturesConfigFromMap ::
  "'f option \<Rightarrow> ('d, 'f) heap \<Rightarrow> addr option \<times> ('d, 'f) heap" where
  "NewFeaturesConfigFromMap built_in h =
     (case built_in of
        None \<Rightarrow> (None, h)
      | Some f \<Rightarrow> (Some (length (features_objs h)), h\<lparr>features_objs := features_objs h @ [f]\<rparr>))"

definition new_Config :: "('d, 'f) heap \<Rightarrow> addr \<times> ('d, 'f) heap" where
  "new_Config h =
     (length (config_objs h),
      h\<lparr>config_objs := config_objs h @ [\<lparr>Defaults = None, Features = None\<rparr>]\<rparr>)"

definition set_Defaults :: "addr \<Rightarrow> addr option \<Rightarrow> ('d, 'f) heap \<Rightarrow> ('d, 'f) heap" where
  "set_Defaults cfg p h =
     h\<lparr>config_objs := (config_objs h)[cfg := (config_objs h ! cfg)\<lparr>Defaults := p\<rparr>]\<rparr>"

definition set_Features :: "addr \<Rightarrow> addr option \<Rightarrow> ('d, 'f) heap \<Rightarrow> ('d, 'f) heap" where
  "set_Features cfg p h =
     h\<lparr>config_objs := (config_objs h)[cfg := (config_objs h ! cfg)\<lparr>Features := p\<rparr>]\<rparr>"

definition FromContextOrDefaults ::
  "'d option \<Rightarrow> 'f option \<Rightarrow> Context \<Rightarrow> ('d, 'f) heap \<Rightarrow> addr option \<times> ('d, 'f) heap" where
  "FromContextOrDefaults defaults_built_in features_built_in ctx h =
     (let (cfg, h) = (case FromContext ctx of None \<Rightarrow> new_Config h | Some c \<Rightarrow> (c, h));
          h = (if Defaults (config_objs h ! cfg) = None
               then (let (p, h) = NewDefaultsConfigFromMap defaults_built_in h
                     in set_Defaults cfg p h)
               else h);
          h = (if Features (config_objs h ! cfg) = None
               then (let (p, h) = NewFeaturesConfigFromMap features_built_in h
                     in set_Features cfg p h)
               else h)
      in (Some cfg, h))"

definition ToContext :: "Context \<Rightarrow> addr option \<Rightarrow> ('d, 'f) heap \<Rightarrow> Context" where
  "ToContext ctx c h =
     (let ctx = ctx\<lparr>cfgKey_value := Some c\<rparr>
      in case c of
           None \<Rightarrow> ctx
         | Some a \<Rightarrow>
             ctx\<lparr>apisconfig_value :=
                   Some (Defaults (config_objs h ! a), Features (config_objs h ! a))\<rparr>)"

text \<open>
  The \<open>UntypedStore\<close> of knative.dev/pkg keeps one value of type \<open>interface{}\<close> per
  config-map name; \<open>UntypedLoad\<close> returns it, or nil for a name with no value.  The
  dynamic type of a value decides the type assertions in \<open>Load\<close>.
\<close>

datatype untyped = DefaultsValue "addr option" | FeaturesValue "addr option" | OtherValue

type_synonym Store = "string \<rightharpoonup> untyped"

definition DefaultsConfigName :: string where
  "DefaultsConfigName = ''config-defaults''"

definition FeaturesConfigName :: string where
  "FeaturesConfigName = ''config-features''"

definition UntypedLoad :: "Store \<Rightarrow> string \<Rightarrow> untyped option" where
  "UntypedLoad s name = s name"

text \<open>
  Modelled from the spec: \<open>DeepCopy\<close> of \<open>*Defaults\<close> and \<open>*Features\<close> is generated code
  of pkg/apis/config, which is not part of the sources this theory is written from.
  The copy is deep: a new object, equal to the receiver and sharing nothing with it;
  the copy of a nil pointer is nil.
\<close>

definition DeepCopy_Defaults ::
  "addr option \<Rightarrow> ('d, 'f) heap \<Rightarrow> addr option \<times> ('d, 'f) heap" where
  "DeepCopy_Defaults p h =
     (case p of
        None \<Rightarrow> (None, h)
      | Some a \<Rightarrow>
          (Some (length (defaults_objs h)),
           h\<lparr>defaults_objs := defaults_objs h @ [defaults_objs h ! a]\<rparr>))"

definition DeepCopy_Features ::
  "addr option \<Rightarrow> ('d, 'f) heap \<Rightarrow> addr option \<times> ('d, 'f) heap" where
  "DeepCopy_Features p h =
     (case p of
        None \<Rightarrow> (None, h)
      | Some a \<Rightarrow>
          (Some (length (features_objs h)),
           h\<lparr>features_objs := features_objs h @ [features_objs h ! a]\<rparr>))"

definition Load :: "Store \<Rightarrow> ('d, 'f) heap \<Rightarrow> addr \<times> ('d, 'f) heap" where
  "Load s h =
     (let (cfg, h) = new_Config h;
          h = (case UntypedLoad s DefaultsConfigName of
                 Some (DefaultsValue def) \<Rightarrow>
                   (let (p, h) = DeepCopy_Defaults def h in set_Defaults cfg p h)
               | _ \<Rightarrow> h);
          h = (case UntypedLoad s FeaturesConfigName of
                 Some (FeaturesValue feat) \<Rightarrow>
                   (let (p, h) = DeepCopy_Features feat h in set_Features cfg p h)
               | _ \<Rightarrow> h)
      in (cfg, h))"

definition Store_ToContext :: "Store \<Rightarrow> Context \<Rightarrow> ('d, 'f) heap \<Rightarrow> Context \<times> ('d, 'f) heap" where
  "Store_ToContext s ctx h = (let (c, h) = Load s h in (ToContext ctx (Some c) h, h))"

text \<open>
  Go's pointers are never dangling: every address held by the store, by a context or
  by the \<open>Config\<close> a context carries is the address of an object.
\<close>

definition valid_Store :: "Store \<Rightarrow> ('d, 'f) heap \<Rightarrow> bool" where
  "valid_Store s h \<longleftrightarrow>
     (case s DefaultsConfigName of
        Some (DefaultsValue (Some a)) \<Rightarrow> a < length (defaults_objs h) | _ \<Rightarrow> True) \<and>
     (case s FeaturesConfigName of
        Some (FeaturesValue (Some a)) \<Rightarrow> a < length (features_objs h) | _ \<Rightarrow> True)"

definition valid_context :: "Context \<Rightarrow> ('d, 'f) heap \<Rightarrow> bool" where
  "valid_context ctx h \<longleftrightarrow>
     (case FromContext ctx of
        None \<Rightarrow> True
      | Some c \<Rightarrow>
          c < length (config_objs h) \<and>
          (case Defaults (config_objs h ! c) of
             None \<Rightarrow> True | Some a \<Rightarrow> a < length (defaults_objs h)) \<and>
          (case Features (config_objs h ! c) of
             None \<Rightarrow> True | Some b \<Rightarrow> b < length (features_objs h)))"

text \<open>
  What a caller can do to a \<open>*Config\<close> it holds: assign to a field of the \<open>Defaults\<close>
  or \<open>Features\<close> object it points to (through a nil pointer that panics), or assign
  one of its two pointer fields.
\<close>

datatype ('d, 'f) mutation =
    WriteDefaults 'd
  | WriteFeatures 'f
  | AssignDefaults "addr option"
  | AssignFeatures "addr option"

fun mutate :: "addr \<Rightarrow> ('d, 'f) mutation \<Rightarrow> ('d, 'f) heap \<Rightarrow> panic + ('d, 'f) heap" where
  "mutate cfg (WriteDefaults v) h =
     (case Defaults (config_objs h ! cfg) of
        None \<Rightarrow> Inl NilPointerDereference
      | Some a \<Rightarrow> Inr (h\<lparr>defaults_objs := (defaults_objs h)[a := v]\<rparr>))"
| "mutate cfg (WriteFeatures v) h =
     (case Features (config_objs h ! cfg) of
        None \<Rightarrow> Inl NilPointerDereference
      | Some a \<Rightarrow> Inr (h\<lparr>features_objs := (features_objs h)[a := v]\<rparr>))"
| "mutate cfg (AssignDefaults p) h = Inr (set_Defaults cfg p h)"
| "mutate cfg (AssignFeatures p) h = Inr (set_Features cfg p h)"

text \<open>The values a \<open>*Config\<close> shows to its holder: what its two pointers point to.\<close>

definition Config_values :: "addr \<Rightarrow> ('d, 'f) heap \<Rightarrow> 'd option \<times> 'f option" where
  "Config_values cfg h =
     (map_option (\<lambda>a. defaults_objs h ! a) (Defaults (config_objs h ! cfg)),
      map_option (\<lambda>a. features_objs h ! a) (Features (config_objs h ! cfg)))"

definition Store_values :: "Store \<Rightarrow> ('d, 'f) heap \<Rightarrow> 'd option \<times> 'f option" where
  "Store_values s h =
     ((case s DefaultsConfigName of
         Some (DefaultsValue (Some a)) \<Rightarrow> Some (defaults_objs h ! a) | _ \<Rightarrow> None),
      (case s FeaturesConfigName of
         Some (FeaturesValue (Some a)) \<Rightarrow> Some (features_objs h ! a) | _ \<Rightarrow> None))"

text \<open>
  The effect of \<open>Load\<close> in closed form: the objects it appends to the store of objects
  and the \<open>Config\<close> it builds.
\<close>

definition copied_defaults :: "Store \<Rightarrow> ('d, 'f) heap \<Rightarrow> 'd list" where
  "copied_defaults s h =
     (case s DefaultsConfigName of
        Some (DefaultsValue (Some a)) \<Rightarrow> [defaults_objs h ! a] | _ \<Rightarrow> [])"

definition copied_features :: "Store \<Rightarrow> ('d, 'f) heap \<Rightarrow> 'f list" where
  "copied_features s h =
     (case s FeaturesConfigName of
        Some (FeaturesValue (Some a)) \<Rightarrow> [features_objs h ! a] | _ \<Rightarrow> [])"

definition loaded_Config :: "Store \<Rightarrow> ('d, 'f) heap \<Rightarrow> Config" where
  "loaded_Config s h =
     \<lparr>Defaults = (case s DefaultsConfigName of
                    Some (DefaultsValue (Some a)) \<Rightarrow> Some (length (defaults_objs h)) | _ \<Rightarrow> None),
      Features = (case s FeaturesConfigName of
                    Some (FeaturesValue (Some a)) \<Rightarrow> Some (length (features_objs h)) | _ \<Rightarrow> None)\<rparr>"

section \<open>Local capacity of a revision\<close>

text \<open>
  Modelled from the spec: the throttler (pkg/activator/net), which computes an
  activator's capacity for a revision, is not part of the sources this theory is
  written from.  The specification gives
  \<open>localCapacity = ceil(containerConcurrency * podCount / min(activatorCount, numActivators))\<close>,
  clamped to 0 when \<open>podCount = 0\<close>; \<open>containerConcurrency = 0\<close> means unbounded;
  \<open>numActivators = 0\<close> means all known activators (as the field's description in the
  ServerlessService CRD says: 0 means assign all); and an activator that is not in the
  set has capacity zero.  The ceiling is computed in integers, as code would.
\<close>

datatype capacity = Unbounded | Slots nat

definition participating :: "nat \<Rightarrow> nat \<Rightarrow> nat" where
  "participating activatorCount numActivators =
     (if numActivators = 0 then activatorCount else min activatorCount numActivators)"

definition localCapacity :: "nat \<Rightarrow> nat \<Rightarrow> nat \<Rightarrow> nat \<Rightarrow> capacity" where
  "localCapacity containerConcurrency podCount activatorCount numActivators =
     (if containerConcurrency = 0 then Unbounded
      else if podCount = 0 \<or> participating activatorCount numActivators = 0 then Slots 0
      else Slots ((containerConcurrency * podCount + participating activatorCount numActivators - 1)
                    div participating activatorCount numActivators))"

section \<open>The timeout handler\<close>

text \<open>
  Modelled from the spec: the timeout handler (pkg/http/handler) is not part of the
  sources this theory is written from; its caller in \<open>main\<close> and the end-to-end test
  of its status codes are.  The specification gives three deadlines, each disabled by
  0, whose timers start when the request enters the handler: \<open>timeout\<close> fires when
  the time since then exceeds it; \<open>responseStartTimeout\<close> when no response has been
  observed within the bound; \<open>idleTimeout\<close> when no bytes have passed for the bound.
  A timer that fires before anything has been written makes the handler send 504; one
  that fires later truncates the response.

  Time is counted in milliseconds from the request's entry.  What the backend does is
  the list of instants at which it writes response bytes and the instant at which it
  finishes.
\<close>

record deadlines =
  timeout :: nat
  responseStartTimeout :: nat
  idleTimeout :: nat

datatype response = GatewayTimeout | Truncated | Complete

definition fires :: "deadlines \<Rightarrow> nat \<Rightarrow> bool \<Rightarrow> nat \<Rightarrow> bool" where
  "fires d last_activity started t \<longleftrightarrow>
     (0 < timeout d \<and> timeout d < t) \<or>
     (0 < responseStartTimeout d \<and> \<not> started \<and> responseStartTimeout d < t) \<or>
     (0 < idleTimeout d \<and> last_activity + idleTimeout d < t)"

fun serve_timed :: "deadlines \<Rightarrow> nat \<Rightarrow> bool \<Rightarrow> nat list \<Rightarrow> nat \<Rightarrow> response" where
  "serve_timed d last_activity started [] finish =
     (if fires d last_activity started finish
      then (if started then Truncated else GatewayTimeout)
      else Complete)"
| "serve_timed d last_activity started (w # ws) finish =
     (if fires d last_activity started w
      then (if started then Truncated else GatewayTimeout)
      else serve_timed d w True ws finish)"

definition TimeoutHandler :: "deadlines \<Rightarrow> nat list \<Rightarrow> nat \<Rightarrow> response" where
  "TimeoutHandler d writes finish = serve_timed d 0 False writes finish"

text \<open>
  The instant of the backend's first sign of life, and what it is for a backend to
  respond within all three bounds: it finishes within \<open>timeout\<close>, starts its response
  within \<open>responseStartTimeout\<close>, and never pauses for longer than \<open>idleTimeout\<close>.
\<close>

definition first_byte :: "nat list \<Rightarrow> nat \<Rightarrow> nat" where
  "first_byte writes finish = (case writes of [] \<Rightarrow> finish | w # ws \<Rightarrow> w)"

fun pauses_within :: "nat \<Rightarrow> nat \<Rightarrow> nat list \<Rightarrow> bool" where
  "pauses_within bound last_activity [] = True"
| "pauses_within bound last_activity (t # ts) =
     (t \<le> last_activity + bound \<and> pauses_within bound t ts)"

definition within_bounds :: "deadlines \<Rightarrow> nat list \<Rightarrow> nat \<Rightarrow> bool" where
  "within_bounds d writes finish \<longleftrightarrow>
     (timeout d = 0 \<or> finish \<le> timeout d) \<and>
     (responseStartTimeout d = 0 \<or> first_byte writes finish \<le> responseStartTimeout d) \<and>
     (idleTimeout d = 0 \<or> pauses_within (idleTimeout d) 0 (writes @ [finish]))"

text \<open>
  The backend of the end-to-end test (test/e2e/timeout_test.go): it sleeps
  \<open>initialSleep\<close> before the first byte of its response and \<open>sleep\<close> before the rest.
\<close>

definition e2e_request :: "nat \<Rightarrow> nat \<Rightarrow> nat \<Rightarrow> nat \<Rightarrow> nat \<Rightarrow> response" where
  "e2e_request timeoutSeconds responseStartTimeoutSeconds idleTimeoutSeconds initialSleep sleep =
     TimeoutHandler
       \<lparr>timeout = 1000 * timeoutSeconds,
        responseStartTimeout = 1000 * responseStartTimeoutSeconds,
        idleTimeout = 1000 * idleTimeoutSeconds\<rparr>
       [initialSleep, initialSleep + sleep] (initialSleep + sleep)"

section \<open>Example inputs\<close>

definition example_request :: Request where
  "example_request =
     \<lparr>URL_Scheme = [], URL_Host = [], Host = ''hello.default.example.com'',
      Header = [''Knative-Serving-Revision'' \<mapsto> [''hello-00001''],
                ''Accept'' \<mapsto> [''text/plain'']]\<rparr>"

definition example_inputs :: inputs where
  "example_inputs =
     \<lparr>env = \<lparr>PodName = ''activator-0'', PodIP = ''10.0.0.5'',
              MaxIdleProxyConns = 1000, MaxIdleProxyConnsPerHost = 100\<rparr>,
      networkConfig = \<lparr>EnableMeshPodAddressability = False,
                        MeshCompatibilityMode = MeshCompatibilityModeAuto,
                        SystemInternalTLSEnabled = True\<rparr>,
      cluster_drain_timeout = Some (10 * Second),
      failing = {},
      woken = Some SigCtxDone,
      serve_order = [''h2c'', ''profile'', ''http1''],
      shutdown_order = [''profile'', ''http1'', ''h2c'']\<rparr>"

definition example_heap :: "(nat, string) heap" where
  "example_heap = \<lparr>defaults_objs = [300], features_objs = [''enabled''], config_objs = []\<rparr>"

definition example_Store :: Store where
  "example_Store =
     [DefaultsConfigName \<mapsto> DefaultsValue (Some 0),
      FeaturesConfigName \<mapsto> FeaturesValue (Some 0)]"

definition example_apiconfig :: apiconfig where
  "example_apiconfig =
     \<lparr>DefaultRevisionTimeoutSeconds = 300,
      DefaultRevisionResponseStartTimeoutSeconds = 300,
      DefaultRevisionIdleTimeoutSeconds = 0\<rparr>"

definition example_heap_loaded :: "(nat, string) heap" where
  "example_heap_loaded =
     \<lparr>defaults_objs = [300, 300], features_objs = [''enabled'', ''enabled''],
      config_objs = [\<lparr>Defaults = Some 1, Features = Some 1\<rparr>]\<rparr>"

definition example_heap_mutated :: "(nat, string) heap" where
  "example_heap_mutated =
     \<lparr>defaults_objs = [300, 999], features_objs = [''enabled'', ''enabled''],
      config_objs = [\<lparr>Defaults = Some 1, Features = Some 1\<rparr>]\<rparr>"

definition example_context :: Context where
  "example_context = \<lparr>cfgKey_value = None, apisconfig_value = None\<rparr>"

text \<open>
  A context that carries a \<open>Config\<close> whose \<open>Defaults\<close> are set and whose \<open>Features\<close>
  are nil, and the store of objects once \<open>FromContextOrDefaults\<close> has filled it.
\<close>

definition example_context_attached :: Context where
  "example_context_attached = \<lparr>cfgKey_value = Some (Some 0), apisconfig_value = None\<rparr>"

definition example_heap_attached :: "(nat, string) heap" where
  "example_heap_attached =
     \<lparr>defaults_objs = [77], features_objs = [],
      config_objs = [\<lparr>Defaults = Some 0, Features = None\<rparr>]\<rparr>"

definition example_heap_filled :: "(nat, string) heap" where
  "example_heap_filled =
     \<lparr>defaults_objs = [77], features_objs = [''enabled''],
      config_objs = [\<lparr>Defaults = Some 0, Features = Some 0\<rparr>]\<rparr>"

section \<open>Theorems\<close>

text \<open>
  C2.  The readiness check is healthy (returns nil) exactly when the signal context is
  not cancelled and the stat sink's status is nil; otherwise it returns an error.
\<close>

theorem C2_health_check_healthy_iff:
  "fst (newHealthCheck sigCtx_done statSink_Status s) = None
     \<longleftrightarrow> (\<not> sigCtx_done \<and> statSink_Status = None)"
  by (simp add: newHealthCheck_def)

subsection \<open>The header-pruning reverse proxy\<close>

lemma Header_Del_fold_listed:
  "k \<in> CanonicalMIMEHeaderKey ` set hs \<Longrightarrow> foldl Header_Del h hs k = None"
  by (induction hs arbitrary: h rule: rev_induct) (auto simp: Header_Del_def)

lemma Header_Del_fold_unlisted:
  "k \<notin> CanonicalMIMEHeaderKey ` set hs \<Longrightarrow> foldl Header_Del h hs k = h k"
  by (induction hs arbitrary: h rule: rev_induct) (auto simp: Header_Del_def)

lemma canonical_passthrough:
  "CanonicalMIMEHeaderKey ''K-Passthrough-Lb'' = ''K-Passthrough-Lb''"
  by code_simp

lemma canonical_revision_header:
  "CanonicalMIMEHeaderKey ''knative-serving-revision'' = ''Knative-Serving-Revision''"
  by code_simp

text \<open>
  C1, as amended.  For every request the director of
  \<open>NewHeaderPruningReverseProxy target hostOverride headersToRemove useHTTPS\<close> rewrites:
  the URL scheme is https exactly when \<open>useHTTPS\<close> holds and http otherwise; the URL
  host is \<open>target\<close>; when \<open>hostOverride\<close> is not empty the request's Host is
  \<open>hostOverride\<close> (it is left alone otherwise); every header named in
  \<open>headersToRemove\<close> is absent afterwards; and every header not named there is as it
  was, except that with a non-empty \<open>hostOverride\<close> the passthrough-loadbalancing
  header has the value true appended.  The list of removals is applied last, so the
  passthrough header reaches the outgoing request only if the list does not name it.
\<close>

theorem C1_director:
  "(let out = Director (NewHeaderPruningReverseProxy target hostOverride headersToRemove useHTTPS) req in
      URL_Scheme out = (if useHTTPS then ''https'' else ''http'') \<and>
      URL_Host out = target \<and>
      Host out = (if hostOverride \<noteq> NoHostOverride then hostOverride else Host req) \<and>
      (\<forall>h \<in> set headersToRemove. Header out (CanonicalMIMEHeaderKey h) = None) \<and>
      (\<forall>k. k \<notin> CanonicalMIMEHeaderKey ` set headersToRemove \<longrightarrow>
         Header out k =
           (if hostOverride \<noteq> NoHostOverride \<and> k = CanonicalMIMEHeaderKey PassthroughLoadbalancingKey
            then Some (Header_Values (Header req) k @ [''true''])
            else Header req k)))"
  by (simp add: NewHeaderPruningReverseProxy_def Let_def Header_Del_fold_listed
        Header_Del_fold_unlisted Header_Add_def)

theorem C1_director_witness:
  "(let out = Director (NewHeaderPruningReverseProxy ''10.0.0.7:8012'' ''hello.default''
                 [''knative-serving-revision''] True) example_request in
      URL_Scheme out = ''https'' \<and>
      URL_Host out = ''10.0.0.7:8012'' \<and>
      Host out = ''hello.default'' \<and>
      Header out ''Knative-Serving-Revision'' = None \<and>
      Header out ''K-Passthrough-Lb'' = Some [''true''] \<and>
      Header out ''Accept'' = Some [''text/plain''])"
  using C1_director [of "''10.0.0.7:8012''" "''hello.default''" "[''knative-serving-revision'']"
      True example_request]
  by (simp add: Let_def NoHostOverride_def PassthroughLoadbalancingKey_def
        canonical_passthrough canonical_revision_header example_request_def Header_Values_def)

text \<open>
  C1 as stated fails where \<open>headersToRemove\<close> names the passthrough-loadbalancing
  header: the host is overridden, yet the outgoing request does not carry the header.
\<close>

theorem C1_passthrough_removed:
  "''hello.default'' \<noteq> NoHostOverride \<and>
   Header (Director (NewHeaderPruningReverseProxy ''10.0.0.7:8012'' ''hello.default''
             [''K-Passthrough-Lb''] False) example_request)
     (CanonicalMIMEHeaderKey PassthroughLoadbalancingKey) = None"
  by (simp add: NewHeaderPruningReverseProxy_def NoHostOverride_def Header_Del_def
        PassthroughLoadbalancingKey_def)

subsection \<open>The per-request deadlines\<close>

lemma sint_Second: "sint Second = 1000000000"
  by (simp add: Second_def)

text \<open>
  Seconds up to 9223372036 convert without wrapping; one more second is past the
  range of \<open>int64\<close> nanoseconds.
\<close>

lemma seconds_no_wrap:
  assumes "0 \<le> sint t" and "sint t \<le> 9223372036"
  shows "sint ((t :: 64 word) * Second) = sint t * 1000000000"
proof -
  have "sint (t * Second) = signed_take_bit 63 (sint t * 1000000000)"
    by (simp add: sint_word_ariths sint_Second word_size)
  also have "\<dots> = sint t * 1000000000"
    using assms by (intro signed_take_bit_int_eq_self) auto
  finally show ?thesis .
qed

lemma seconds_wrap: "sint ((9223372037 :: 64 word) * Second) < 0"
  by (simp add: Second_def)

text \<open>
  What the closure hands to the timeout handler, by what \<open>RevisionFrom\<close> returns.  For
  a revision with a non-nil \<open>TimeoutSeconds\<close> the three deadlines are the revision's
  \<open>TimeoutSeconds\<close>, \<open>ResponseStartTimeoutSeconds\<close> and \<open>IdleTimeoutSeconds\<close> times
  \<open>time.Second\<close>, a nil \<open>ResponseStartTimeoutSeconds\<close> or \<open>IdleTimeoutSeconds\<close> giving
  0; for a nil revision they are the three default constants times \<open>time.Second\<close>; and
  a panic of \<open>RevisionFrom\<close> is the closure's.
\<close>

lemma timeoutFunc_deadlines:
  "(RevisionFrom c = Inr (Some r) \<and> TimeoutSeconds (Spec r) = Some t \<longrightarrow>
      timeoutFunc api RevisionFrom c =
        Inr (t * Second,
             (case ResponseStartTimeoutSeconds (Spec r) of None \<Rightarrow> 0 | Some v \<Rightarrow> v * Second),
             (case IdleTimeoutSeconds (Spec r) of None \<Rightarrow> 0 | Some v \<Rightarrow> v * Second))) \<and>
   (RevisionFrom c = Inr None \<longrightarrow>
      timeoutFunc api RevisionFrom c =
        Inr (DefaultRevisionTimeoutSeconds api * Second,
             DefaultRevisionResponseStartTimeoutSeconds api * Second,
             DefaultRevisionIdleTimeoutSeconds api * Second)) \<and>
   (RevisionFrom c = Inl p \<longrightarrow> timeoutFunc api RevisionFrom c = Inl p)"
  by (simp add: timeoutFunc_def split: option.splits)

lemma timeoutFunc_example:
  "timeoutFunc example_apiconfig Inr
     (Some \<lparr>Spec = \<lparr>TimeoutSeconds = Some 10, ResponseStartTimeoutSeconds = Some 5,
                     IdleTimeoutSeconds = None\<rparr>\<rparr>) =
     Inr (10000000000, 5000000000, 0) \<and>
   timeoutFunc example_apiconfig Inr None = Inr (300000000000, 300000000000, 0)"
  by (simp add: timeoutFunc_def Second_def example_apiconfig_def)


subsection \<open>The run of main\<close>

lemma takeWhile_serve [simp]:
  "takeWhile (\<lambda>e. \<not> is_Sleep e) (map ListenAndServe ns @ es) =
     map ListenAndServe ns @ takeWhile (\<lambda>e. \<not> is_Sleep e) es"
  by (induction ns) auto

lemma dropWhile_serve [simp]:
  "dropWhile (\<lambda>e. \<not> is_Sleep e) (map ListenAndServe ns @ es) =
     dropWhile (\<lambda>e. \<not> is_Sleep e) es"
  by (induction ns) auto

lemma shut_down_append [simp]: "shut_down (xs @ ys) = shut_down xs @ shut_down ys"
  by (induction xs rule: shut_down.induct) auto

lemma shut_down_serve [simp]: "shut_down (map ListenAndServe ns) = []"
  by (induction ns) auto

lemma shut_down_Shutdown [simp]: "shut_down (map Shutdown ns) = ns"
  by (induction ns) auto

lemma no_Shutdown_before_Sleep_drain:
  "e \<in> set (takeWhile (\<lambda>e. \<not> is_Sleep e) (drain D i)) \<Longrightarrow> \<not> is_Shutdown e"
  by (auto simp: drain_def split: option.splits wake.splits)

lemma no_Shutdown_before_Sleep_serve:
  "e \<in> set (takeWhile (\<lambda>e. \<not> is_Sleep e) (serve D i tls)) \<Longrightarrow> \<not> is_Shutdown e"
  by (cases tls) (auto simp: serve_def dest: no_Shutdown_before_Sleep_drain)

lemma no_Shutdown_before_Sleep:
  "e \<in> set (takeWhile (\<lambda>e. \<not> is_Sleep e) (main D i)) \<Longrightarrow> \<not> is_Shutdown e"
  by (auto simp: main_def Let_def dest: no_Shutdown_before_Sleep_serve split: if_splits)

lemma main_started:
  "failing i = {} \<Longrightarrow>
   dropWhile (\<lambda>e. \<not> is_Sleep e) (main D i) = dropWhile (\<lambda>e. \<not> is_Sleep e) (drain D i) \<and>
   shut_down (main D i) = shut_down (drain D i)"
  by (simp add: main_def serve_def Let_def)

lemma drain_SIGTERM:
  "woken i = Some SigCtxDone \<Longrightarrow>
   dropWhile (\<lambda>e. \<not> is_Sleep e) (drain D i) =
     Sleep D # Info ''Done waiting, shutting down servers.'' #
       map Shutdown (shutdown_order i) @ [Info ''Servers shutdown.''] \<and>
   shut_down (drain D i) = shutdown_order i"
  by (simp add: drain_def)

text \<open>
  C3, as amended.  In no run of \<open>main\<close> is \<open>Shutdown\<close> called before the sleep.  Once
  the signal context is done (from then on the readiness check returns an error), a
  process that has started up sleeps for the fixed interval
  \<open>pkgnet.DefaultDrainTimeout\<close>, whatever the configuration says, and after that sleep
  calls \<open>Shutdown\<close> on every server of the map \<open>servers\<close> (http1, h2c, profile).
\<close>

theorem C3_drain:
  "(\<forall>e \<in> set (takeWhile (\<lambda>e. \<not> is_Sleep e) (main D i)). \<not> is_Shutdown e) \<and>
   (woken i = Some SigCtxDone \<and> failing i = {} \<and> map_range (shutdown_order i) \<longrightarrow>
      (\<exists>rest. dropWhile (\<lambda>e. \<not> is_Sleep e) (main D i) = Sleep D # rest \<and>
              set (map Shutdown servers) \<subseteq> set rest) \<and>
      (\<forall>status s. fst (newHealthCheck True status s) \<noteq> None))"
  using no_Shutdown_before_Sleep [of _ D i]
  by (auto simp: main_started drain_SIGTERM map_range_def newHealthCheck_def)

theorem C3_drain_witness:
  "(\<exists>rest. dropWhile (\<lambda>e. \<not> is_Sleep e) (main (45 * Second) example_inputs) =
            Sleep (45 * Second) # rest \<and>
          set (map Shutdown servers) \<subseteq> set rest) \<and>
   fst (newHealthCheck True None \<lparr>once_done = False, hc_log = []\<rparr>) \<noteq> None"
proof -
  have "woken example_inputs = Some SigCtxDone \<and> failing example_inputs = {} \<and>
        map_range (shutdown_order example_inputs)"
    by (auto simp: example_inputs_def map_range_def servers_def)
  with C3_drain [of "45 * Second" example_inputs] show ?thesis
    by blast
qed

text \<open>
  C3 as stated fails.  With the configuration input \<open>cluster-drain-timeout\<close> at 10
  seconds (and \<open>DefaultDrainTimeout\<close> at 45 seconds) the process sleeps 45 seconds, not
  10.  In the same run, made with system-internal TLS on, the https server has been
  started and \<open>Shutdown\<close> is not called on it: it is not an entry of the map \<open>servers\<close>.
\<close>

theorem C3_sleep_not_configured:
  "cluster_drain_timeout example_inputs = Some (10 * Second) \<and>
   woken example_inputs = Some SigCtxDone \<and>
   Sleep (10 * Second) \<notin> set (main (45 * Second) example_inputs) \<and>
   Sleep (45 * Second) \<in> set (main (45 * Second) example_inputs) \<and>
   ''https'' \<in> set (listening (main (45 * Second) example_inputs)) \<and>
   ''https'' \<notin> set (shut_down (main (45 * Second) example_inputs))"
  by (simp add: example_inputs_def main_def serve_def drain_def Second_def)

lemma constructed_append [simp]: "constructed (xs @ ys) = constructed xs @ constructed ys"
  by (induction xs rule: constructed.induct) auto

lemma passed_to_Run_append [simp]:
  "passed_to_Run (xs @ ys) = passed_to_Run xs @ passed_to_Run ys"
  by (induction xs rule: passed_to_Run.induct) auto

lemma passed_to_New_append [simp]:
  "passed_to_New (xs @ ys) = passed_to_New xs @ passed_to_New ys"
  by (induction xs rule: passed_to_New.induct) auto

lemma map_no_transport [simp]:
  "constructed (map ListenAndServe ns) = []"
  "passed_to_Run (map ListenAndServe ns) = []"
  "passed_to_New (map ListenAndServe ns) = []"
  "constructed (map Shutdown ns) = []"
  "passed_to_Run (map Shutdown ns) = []"
  "passed_to_New (map Shutdown ns) = []"
  by (induction ns) auto

lemma drain_no_transport [simp]:
  "constructed (drain D i) = []"
  "passed_to_Run (drain D i) = []"
  "passed_to_New (drain D i) = []"
  by (auto simp: drain_def split: option.splits wake.splits)

lemma serve_no_transport [simp]:
  "constructed (serve D i tls) = []"
  "passed_to_Run (serve D i tls) = []"
  "passed_to_New (serve D i tls) = []"
  by (auto simp: serve_def)

text \<open>
  C8, as amended.  In every run of \<open>main\<close> the transport passed to the throttler's
  \<open>Run\<close> and the one passed to \<open>activatorhandler.New\<close> are the very same value: the
  last transport \<open>main\<close> constructed.  A run that starts up passes it to each exactly
  once, and constructs one transport when system-internal TLS is off and two when it
  is on: the plain one, and the TLS one that replaces it before any use.
\<close>

theorem C8_transport:
  "(\<forall>t \<in> set (passed_to_Run (main D i) @ passed_to_New (main D i)).
      constructed (main D i) \<noteq> [] \<and> t = last (constructed (main D i))) \<and>
   (failing i = {} \<longrightarrow>
      passed_to_Run (main D i) = [last (constructed (main D i))] \<and>
      passed_to_New (main D i) = [last (constructed (main D i))] \<and>
      constructed (main D i) =
        (if SystemInternalTLSEnabled (networkConfig i) then [0, 1] else [0]))"
  by (simp add: main_def Let_def)

theorem C8_transport_witness:
  "passed_to_Run (main (45 * Second) example_inputs) = [1] \<and>
   passed_to_New (main (45 * Second) example_inputs) = [1] \<and>
   constructed (main (45 * Second) example_inputs) = [0, 1]"
  using C8_transport [of "45 * Second" example_inputs]
  by (simp add: example_inputs_def)

text \<open>
  C8 as stated fails with system-internal TLS on: the process constructs two
  transports at startup, not one.
\<close>

theorem C8_two_transports:
  "SystemInternalTLSEnabled (networkConfig example_inputs) \<and>
   length (constructed (main (45 * Second) example_inputs)) = 2"
  by (simp add: example_inputs_def main_def)

subsection \<open>The config store\<close>

lemma Load_eq:
  "Load s h =
     (length (config_objs h),
      \<lparr>defaults_objs = defaults_objs h @ copied_defaults s h,
       features_objs = features_objs h @ copied_features s h,
       config_objs = config_objs h @ [loaded_Config s h]\<rparr>)"
  by (simp add: Load_def new_Config_def UntypedLoad_def DeepCopy_Defaults_def
        DeepCopy_Features_def set_Defaults_def set_Features_def copied_defaults_def
        copied_features_def loaded_Config_def
      split: option.split untyped.split)

lemma Load_values:
  "valid_Store s h \<Longrightarrow> Load s h = (c, h1) \<Longrightarrow> Config_values c h1 = Store_values s h"
  by (auto simp: Load_eq Config_values_def Store_values_def valid_Store_def loaded_Config_def
        copied_defaults_def copied_features_def nth_append
      split: option.split untyped.split)

lemma mutate_Store_values:
  assumes "valid_Store s h" and "Load s h = (c, h1)" and "mutate c m h1 = Inr h2"
  shows "Store_values s h2 = Store_values s h" and "valid_Store s h2"
  using assms
  by (cases m; auto simp: Load_eq Store_values_def valid_Store_def loaded_Config_def
        copied_defaults_def copied_features_def nth_append set_Defaults_def set_Features_def
      split: option.splits untyped.splits)+

lemma Store_ToContext_eq:
  "Store_ToContext s ctx h = (ctx', h3) \<Longrightarrow>
   FromContext ctx' = Some (fst (Load s h)) \<and> h3 = snd (Load s h)"
  by (auto simp: Store_ToContext_def ToContext_def FromContext_def Let_def split: prod.splits)

text \<open>
  C10.  For every state of the store, the \<open>Config\<close> that \<open>Load\<close> returns shows the
  stored \<open>Defaults\<close> and \<open>Features\<close> through copies of its own: whatever field of the
  returned \<open>Config\<close> a caller then mutates, the store holds the values it held, and
  a subsequent \<open>Load\<close>, also the one inside \<open>ToContext\<close>, returns a \<open>Config\<close> with the
  values observed before the mutation.
\<close>

theorem C10_Load_frame:
  "valid_Store s h \<and> Load s h = (c, h1) \<and> mutate c m h1 = Inr h2 \<longrightarrow>
     Config_values c h1 = Store_values s h \<and>
     Store_values s h2 = Store_values s h \<and>
     Config_values (fst (Load s h2)) (snd (Load s h2)) = Config_values c h1 \<and>
     (\<forall>ctx. FromContext (fst (Store_ToContext s ctx h2)) = Some (fst (Load s h2)) \<and>
            snd (Store_ToContext s ctx h2) = snd (Load s h2))"
proof (intro impI, elim conjE)
  assume v: "valid_Store s h" and l: "Load s h = (c, h1)" and m: "mutate c m h1 = Inr h2"
  have a: "Config_values c h1 = Store_values s h"
    using v l by (rule Load_values)
  have b: "Store_values s h2 = Store_values s h" and v2: "valid_Store s h2"
    using mutate_Store_values [OF v l m] by simp_all
  have "Config_values (fst (Load s h2)) (snd (Load s h2)) = Store_values s h2"
    using v2 by (intro Load_values) simp_all
  then have c: "Config_values (fst (Load s h2)) (snd (Load s h2)) = Config_values c h1"
    using a b by simp
  have d: "\<forall>ctx. FromContext (fst (Store_ToContext s ctx h2)) = Some (fst (Load s h2)) \<and>
            snd (Store_ToContext s ctx h2) = snd (Load s h2)"
    using Store_ToContext_eq [of s _ h2] by (metis prod.collapse)
  show "Config_values c h1 = Store_values s h \<and>
     Store_values s h2 = Store_values s h \<and>
     Config_values (fst (Load s h2)) (snd (Load s h2)) = Config_values c h1 \<and>
     (\<forall>ctx. FromContext (fst (Store_ToContext s ctx h2)) = Some (fst (Load s h2)) \<and>
            snd (Store_ToContext s ctx h2) = snd (Load s h2))"
    using a b c d by blast
qed

lemma FromContextOrDefaults_fresh:
  "FromContext ctx = None \<Longrightarrow>
   FromContextOrDefaults (Some d) (Some f) ctx h =
     (Some (length (config_objs h)),
      \<lparr>defaults_objs = defaults_objs h @ [d], features_objs = features_objs h @ [f],
       config_objs = config_objs h @
         [\<lparr>Defaults = Some (length (defaults_objs h)),
           Features = Some (length (features_objs h))\<rparr>]\<rparr>)"
  by (simp add: FromContextOrDefaults_def new_Config_def NewDefaultsConfigFromMap_def
        NewFeaturesConfigFromMap_def set_Defaults_def set_Features_def)

lemma list_update_nth: "xs ! c = v \<Longrightarrow> xs = xs[c := v]"
  by (metis list_update_id)

lemma FromContextOrDefaults_attached:
  "FromContext ctx = Some c \<Longrightarrow> c < length (config_objs h) \<Longrightarrow>
   FromContextOrDefaults (Some d) (Some f) ctx h =
     (Some c,
      \<lparr>defaults_objs =
         defaults_objs h @ (case Defaults (config_objs h ! c) of None \<Rightarrow> [d] | Some a \<Rightarrow> []),
       features_objs =
         features_objs h @ (case Features (config_objs h ! c) of None \<Rightarrow> [f] | Some b \<Rightarrow> []),
       config_objs = (config_objs h)
         [c := \<lparr>Defaults = (case Defaults (config_objs h ! c) of
                              None \<Rightarrow> Some (length (defaults_objs h)) | Some a \<Rightarrow> Some a),
                  Features = (case Features (config_objs h ! c) of
                              None \<Rightarrow> Some (length (features_objs h)) | Some b \<Rightarrow> Some b)\<rparr>]\<rparr>)"
  by (cases h; cases "config_objs h ! c")
     (auto simp: FromContextOrDefaults_def NewDefaultsConfigFromMap_def
        NewFeaturesConfigFromMap_def set_Defaults_def set_Features_def Let_def
      split: option.splits intro: list_update_nth)

text \<open>
  C9.  Provided \<open>NewDefaultsConfigFromMap(nil)\<close> and \<open>NewFeaturesConfigFromMap(nil)\<close>
  return their built-in objects \<open>d\<close> and \<open>f\<close> (non-nil pointers):
  \<open>FromContextOrDefaults\<close> returns, for every context, a non-nil \<open>Config\<close> whose
  \<open>Defaults\<close> and \<open>Features\<close> are both non-nil.  For a context with no \<open>Config\<close> it
  is a new \<open>Config\<close> holding the built-in ones.  For a context that carries a
  \<open>Config\<close> it is that very \<open>Config\<close>: a field that was set keeps its pointer and its
  value, and a field that was nil is filled with the built-in one.  \<open>FromContext\<close>
  returns nil for a context with no \<open>Config\<close>.
\<close>

theorem C9_FromContextOrDefaults:
  "(valid_context ctx h \<longrightarrow>
      (\<exists>c h'. FromContextOrDefaults (Some d) (Some f) ctx h = (Some c, h') \<and>
              c < length (config_objs h') \<and>
              Defaults (config_objs h' ! c) \<noteq> None \<and>
              Features (config_objs h' ! c) \<noteq> None \<and>
              (case FromContext ctx of
                 None \<Rightarrow>
                   c = length (config_objs h) \<and> Config_values c h' = (Some d, Some f)
               | Some c0 \<Rightarrow>
                   c = c0 \<and>
                   Config_values c h' =
                     (Some (case Defaults (config_objs h ! c0) of
                              None \<Rightarrow> d | Some a \<Rightarrow> defaults_objs h ! a),
                      Some (case Features (config_objs h ! c0) of
                              None \<Rightarrow> f | Some b \<Rightarrow> features_objs h ! b)) \<and>
                   (\<forall>a. Defaults (config_objs h ! c0) = Some a \<longrightarrow>
                          Defaults (config_objs h' ! c0) = Some a) \<and>
                   (\<forall>b. Features (config_objs h ! c0) = Some b \<longrightarrow>
                          Features (config_objs h' ! c0) = Some b)))) \<and>
   FromContext \<lparr>cfgKey_value = None, apisconfig_value = a\<rparr> = None"
proof (intro conjI impI)
  assume v: "valid_context ctx h"
  show "\<exists>c h'. FromContextOrDefaults (Some d) (Some f) ctx h = (Some c, h') \<and>
              c < length (config_objs h') \<and>
              Defaults (config_objs h' ! c) \<noteq> None \<and>
              Features (config_objs h' ! c) \<noteq> None \<and>
              (case FromContext ctx of
                 None \<Rightarrow>
                   c = length (config_objs h) \<and> Config_values c h' = (Some d, Some f)
               | Some c0 \<Rightarrow>
                   c = c0 \<and>
                   Config_values c h' =
                     (Some (case Defaults (config_objs h ! c0) of
                              None \<Rightarrow> d | Some a \<Rightarrow> defaults_objs h ! a),
                      Some (case Features (config_objs h ! c0) of
                              None \<Rightarrow> f | Some b \<Rightarrow> features_objs h ! b)) \<and>
                   (\<forall>a. Defaults (config_objs h ! c0) = Some a \<longrightarrow>
                          Defaults (config_objs h' ! c0) = Some a) \<and>
                   (\<forall>b. Features (config_objs h ! c0) = Some b \<longrightarrow>
                          Features (config_objs h' ! c0) = Some b))"
  proof (cases "FromContext ctx")
    case None
    then show ?thesis
      by (simp add: FromContextOrDefaults_fresh Config_values_def)
  next
    case (Some c)
    then have c: "c < length (config_objs h)"
      and d: "case Defaults (config_objs h ! c) of
                None \<Rightarrow> True | Some a \<Rightarrow> a < length (defaults_objs h)"
      and f: "case Features (config_objs h ! c) of
                None \<Rightarrow> True | Some b \<Rightarrow> b < length (features_objs h)"
      using v by (simp_all add: valid_context_def)
    show ?thesis
      using Some c d f
      by (auto simp: FromContextOrDefaults_attached Config_values_def nth_append
          split: option.splits)
  qed
next
  show "FromContext \<lparr>cfgKey_value = None, apisconfig_value = a\<rparr> = None"
    by (simp add: FromContext_def)
qed

theorem C10_Load_frame_witness:
  "Load example_Store example_heap = (0, example_heap_loaded) \<and>
   mutate 0 (WriteDefaults 999) example_heap_loaded = Inr example_heap_mutated \<and>
   Store_values example_Store example_heap_mutated = (Some 300, Some ''enabled'') \<and>
   Config_values (fst (Load example_Store example_heap_mutated))
     (snd (Load example_Store example_heap_mutated)) = (Some 300, Some ''enabled'')"
proof -
  have v: "valid_Store example_Store example_heap"
    by (simp add: valid_Store_def example_Store_def example_heap_def DefaultsConfigName_def
          FeaturesConfigName_def)
  have l: "Load example_Store example_heap = (0, example_heap_loaded)"
    by (simp add: Load_eq example_Store_def example_heap_def copied_defaults_def
          copied_features_def loaded_Config_def DefaultsConfigName_def FeaturesConfigName_def
          example_heap_loaded_def)
  have m: "mutate 0 (WriteDefaults 999) example_heap_loaded = Inr example_heap_mutated"
    by (simp add: example_heap_loaded_def example_heap_mutated_def)
  have s: "Store_values example_Store example_heap = (Some 300, Some ''enabled'')"
    by (simp add: Store_values_def example_Store_def example_heap_def DefaultsConfigName_def
          FeaturesConfigName_def)
  from C10_Load_frame [of example_Store example_heap 0 example_heap_loaded
      "WriteDefaults 999" example_heap_mutated] v l m s
  show ?thesis by simp
qed

theorem C9_FromContextOrDefaults_witness:
  "FromContextOrDefaults (Some 300) (Some ''enabled'') example_context_attached
     example_heap_attached = (Some 0, example_heap_filled) \<and>
   Config_values 0 example_heap_filled = (Some 77, Some ''enabled'') \<and>
   FromContextOrDefaults (Some 300) (Some ''enabled'') example_context example_heap =
     (Some 0, example_heap_loaded) \<and>
   Config_values 0 example_heap_loaded = (Some 300, Some ''enabled'')"
proof -
  have v: "valid_context example_context_attached example_heap_attached"
    by (simp add: valid_context_def FromContext_def example_context_attached_def
          example_heap_attached_def)
  have c: "FromContext example_context_attached = Some 0"
    by (simp add: FromContext_def example_context_attached_def)
  have e: "FromContextOrDefaults (Some 300) (Some ''enabled'') example_context_attached
     example_heap_attached = (Some 0, example_heap_filled)"
    by (simp add: FromContextOrDefaults_attached c example_heap_attached_def
          example_heap_filled_def)
  have o: "defaults_objs example_heap_attached ! 0 = 77"
      "Defaults (config_objs example_heap_attached ! 0) = Some 0"
      "Features (config_objs example_heap_attached ! 0) = None"
    by (simp_all add: example_heap_attached_def)
  from C9_FromContextOrDefaults [of example_context_attached example_heap_attached
      300 "''enabled''"] v c e o
  have a: "Config_values 0 example_heap_filled = (Some 77, Some ''enabled'')"
    by simp
  have v': "valid_context example_context example_heap"
    by (simp add: valid_context_def FromContext_def example_context_def)
  have c': "FromContext example_context = None"
    by (simp add: FromContext_def example_context_def)
  have e': "FromContextOrDefaults (Some 300) (Some ''enabled'') example_context example_heap =
     (Some 0, example_heap_loaded)"
    by (simp add: FromContextOrDefaults_fresh c' example_heap_def example_heap_loaded_def)
  from C9_FromContextOrDefaults [of example_context example_heap 300 "''enabled''"] v' c' e'
  have b: "Config_values 0 example_heap_loaded = (Some 300, Some ''enabled'')"
    by simp
  from e a e' b show ?thesis by simp
qed

subsection \<open>Local capacity\<close>

lemma ceil_div_nat:
  assumes "0 < m"
  shows "int ((t + m - 1) div m) = \<lceil>real t / real m\<rceil>"
proof -
  define q where "q = (t + m - 1) div m"
  have upper: "t \<le> q * m"
  proof -
    have "t + m - 1 < (q + 1) * m"
      unfolding q_def using assms
      by (metis Suc_eq_plus1 dividend_less_div_times mult.commute mult_Suc)
    then show ?thesis using assms by simp
  qed
  have lower: "q * m < t + m"
  proof -
    have "q * m \<le> t + m - 1"
      unfolding q_def by simp
    then show ?thesis using assms by linarith
  qed
  have "real t / real m \<le> real q"
    using upper assms by (simp add: divide_le_eq flip: of_nat_mult)
  moreover have "real q - 1 < real t / real m"
  proof -
    have "real (q * m) < real (t + m)" using lower by (simp only: of_nat_less_iff)
    then have "(real q - 1) * real m < real t" by (simp add: algebra_simps)
    then show ?thesis using assms by (simp add: less_divide_eq)
  qed
  ultimately have "\<lceil>real t / real m\<rceil> = int q"
    by (intro ceiling_unique) simp_all
  then show ?thesis by (simp add: q_def)
qed

text \<open>
  C4.  With \<open>containerConcurrency > 0\<close> and at least one activator, the local capacity
  is the ceiling of \<open>containerConcurrency * podCount\<close> over
  \<open>min (activatorCount, numActivators)\<close>, where \<open>numActivators = 0\<close> stands for all
  known activators; it is 0 when \<open>podCount = 0\<close>; and \<open>numActivators = 0\<close> gives what
  \<open>numActivators = activatorCount\<close> gives.  With \<open>containerConcurrency = 10\<close>, two
  pods, \<open>numActivators = 2\<close> and two activators, the capacity of each is 10.
\<close>

theorem C4_localCapacity:
  "(0 < containerConcurrency \<and> 0 < activatorCount \<longrightarrow>
      localCapacity containerConcurrency podCount activatorCount numActivators =
        Slots (nat \<lceil>real (containerConcurrency * podCount) /
                       real (min activatorCount
                               (if numActivators = 0 then activatorCount else numActivators))\<rceil>) \<and>
      localCapacity containerConcurrency 0 activatorCount numActivators = Slots 0 \<and>
      localCapacity containerConcurrency podCount activatorCount 0 =
        localCapacity containerConcurrency podCount activatorCount activatorCount) \<and>
   localCapacity 10 2 2 2 = Slots 10"
proof -
  have ex: "localCapacity 10 2 2 2 = Slots 10"
    by (simp add: localCapacity_def participating_def)
  have gen: "localCapacity c p a n =
        Slots (nat \<lceil>real (c * p) / real (min a (if n = 0 then a else n))\<rceil>)"
    if "0 < c" "0 < a" for c p a n
  proof -
    have m: "participating a n = min a (if n = 0 then a else n)"
      by (simp add: participating_def)
    have pos: "0 < participating a n"
      using that by (simp add: participating_def)
    show ?thesis
    proof (cases "p = 0")
      case True
      then show ?thesis using that by (simp add: localCapacity_def)
    next
      case False
      have "int ((c * p + participating a n - 1) div participating a n) =
            \<lceil>real (c * p) / real (participating a n)\<rceil>"
        using pos by (rule ceil_div_nat)
      then have "(c * p + participating a n - 1) div participating a n =
            nat \<lceil>real (c * p) / real (participating a n)\<rceil>"
        by linarith
      then show ?thesis using that False pos
        by (simp add: localCapacity_def flip: m)
    qed
  qed
  have zero: "localCapacity c 0 a n = Slots 0" if "0 < c" for c a n
    using that by (simp add: localCapacity_def)
  have all: "localCapacity c p a 0 = localCapacity c p a a" for c p a
    by (simp add: localCapacity_def participating_def)
  show ?thesis using ex gen zero all by blast
qed

theorem C4_localCapacity_witness:
  "localCapacity 10 3 4 0 = Slots (nat \<lceil>real (10 * 3) / real (min 4 (4 :: nat))\<rceil>) \<and>
   localCapacity 10 3 4 0 = Slots 8 \<and>
   localCapacity 10 0 4 0 = Slots 0 \<and>
   localCapacity 10 3 4 0 = localCapacity 10 3 4 4"
proof -
  have "localCapacity 10 3 4 0 = Slots 8"
    by (simp add: localCapacity_def participating_def)
  with C4_localCapacity [of 10 4 3 0] show ?thesis
    by simp
qed

subsection \<open>The timeout handler\<close>

text \<open>
  The six rows of the table of \<open>TestRevisionTimeout\<close>, and the scenario of the
  specification in which the backend's first byte comes after 6 seconds with deadlines
  of 10, 5 and 3 seconds.
\<close>

lemma e2e_TestRevisionTimeout:
  "e2e_request 10 0 0 2000 0 = Complete"
  "e2e_request 10 0 0 12000 0 = GatewayTimeout"
  "e2e_request 10 7 0 4000 0 = Complete"
  "e2e_request 20 7 0 15000 0 = GatewayTimeout"
  "e2e_request 10 0 5 0 2000 = Complete"
  "e2e_request 15 0 7 20000 0 = GatewayTimeout"
  by (simp_all add: e2e_request_def TimeoutHandler_def fires_def)

lemma timeout_trio:
  "TimeoutHandler \<lparr>timeout = 10000, responseStartTimeout = 5000, idleTimeout = 3000\<rparr>
     [6000, 7000, 8000, 9000] 9000 = GatewayTimeout"
  by (simp add: TimeoutHandler_def fires_def)

lemma serve_timed_Complete:
  "sorted (ws @ [finish]) \<Longrightarrow>
   timeout d = 0 \<or> finish \<le> timeout d \<Longrightarrow>
   started \<or> responseStartTimeout d = 0 \<or> first_byte ws finish \<le> responseStartTimeout d \<Longrightarrow>
   idleTimeout d = 0 \<or> pauses_within (idleTimeout d) la (ws @ [finish]) \<Longrightarrow>
   serve_timed d la started ws finish = Complete"
proof (induction ws arbitrary: la started)
  case Nil
  then show ?case by (auto simp: fires_def first_byte_def)
next
  case (Cons w ws)
  have le: "w \<le> finish" using Cons.prems(1) by auto
  have nf: "\<not> fires d la started w"
    using Cons.prems le by (auto simp: fires_def first_byte_def)
  have "serve_timed d w True ws finish = Complete"
    using Cons.prems by (intro Cons.IH) auto
  with nf show ?case by simp
qed

lemma serve_timed_started:
  "serve_timed d la True ws finish \<noteq> GatewayTimeout"
  by (induction ws arbitrary: la) auto

lemma serve_timed_GatewayTimeout:
  "serve_timed d la started ws finish = GatewayTimeout \<Longrightarrow>
   \<not> started \<and> fires d la False (first_byte ws finish)"
  using serve_timed_started [of d]
  by (cases ws) (auto simp: first_byte_def split: if_splits)

text \<open>
  C7.  A request on which one of the three timers fires before any byte of the
  response has been written is answered with 504.  A request whose backend responds
  within all three bounds is not: its response goes through complete.  And 504 is the
  handler's answer only when a timer fired before the first byte.
\<close>

theorem C7_gateway_timeout:
  "sorted (writes @ [finish]) \<longrightarrow>
     (fires d 0 False (first_byte writes finish) \<longrightarrow>
        TimeoutHandler d writes finish = GatewayTimeout) \<and>
     (within_bounds d writes finish \<longrightarrow> TimeoutHandler d writes finish = Complete) \<and>
     (TimeoutHandler d writes finish = GatewayTimeout \<longrightarrow>
        fires d 0 False (first_byte writes finish))"
proof (intro impI conjI)
  assume "fires d 0 False (first_byte writes finish)"
  then show "TimeoutHandler d writes finish = GatewayTimeout"
    by (cases writes) (simp_all add: TimeoutHandler_def first_byte_def)
next
  assume "sorted (writes @ [finish])" and "within_bounds d writes finish"
  then show "TimeoutHandler d writes finish = Complete"
    unfolding TimeoutHandler_def within_bounds_def
    by (intro serve_timed_Complete) auto
next
  assume "TimeoutHandler d writes finish = GatewayTimeout"
  then show "fires d 0 False (first_byte writes finish)"
    unfolding TimeoutHandler_def by (blast dest: serve_timed_GatewayTimeout)
qed

theorem C7_gateway_timeout_witness:
  "TimeoutHandler \<lparr>timeout = 20000, responseStartTimeout = 7000, idleTimeout = 0\<rparr>
     [15000] 15000 = GatewayTimeout \<and>
   TimeoutHandler \<lparr>timeout = 10000, responseStartTimeout = 7000, idleTimeout = 5000\<rparr>
     [4000, 6000] 6000 = Complete"
proof -
  have "fires \<lparr>timeout = 20000, responseStartTimeout = 7000, idleTimeout = 0\<rparr> 0 False
          (first_byte [15000] 15000)"
    by (simp add: fires_def first_byte_def)
  with C7_gateway_timeout
    [of "[15000]" 15000 "\<lparr>timeout = 20000, responseStartTimeout = 7000, idleTimeout = 0\<rparr>"]
  have a: "TimeoutHandler \<lparr>timeout = 20000, responseStartTimeout = 7000, idleTimeout = 0\<rparr>
     [15000] 15000 = GatewayTimeout"
    by simp
  have "within_bounds \<lparr>timeout = 10000, responseStartTimeout = 7000, idleTimeout = 5000\<rparr>
          [4000, 6000] 6000"
    by (simp add: within_bounds_def first_byte_def)
  with C7_gateway_timeout
    [of "[4000, 6000]" 6000
      "\<lparr>timeout = 10000, responseStartTimeout = 7000, idleTimeout = 5000\<rparr>"]
  have b: "TimeoutHandler \<lparr>timeout = 10000, responseStartTimeout = 7000, idleTimeout = 5000\<rparr>
     [4000, 6000] 6000 = Complete"
    by simp
  from a b show ?thesis by simp
qed

end
